theory Spec2Isabelle
  imports Main "HOL-Library.AList" "HOL-Library.Char_ord" "HOL-Library.List_Lexorder"
begin

section \<open>The resource action engine of stormpath\_cli/actions.py\<close>

text \<open>
  The module drives five kinds of remote collection through one set of generic actions.
  The collection classes of the SDK are only used as keys of the schema tables and in
  \<open>isinstance\<close> tests, so a collection's type is a value of \<open>kind\<close>.
\<close>

datatype kind =
  AccountList | ApplicationList | AccountStoreMappingList | DirectoryList | GroupList

subsection \<open>Python values\<close>

text \<open>
  The values that flow through the flag map and the attribute sets: \<open>None\<close>, booleans,
  integers, byte strings, lists and dictionaries. A dictionary is an association list
  in insertion order; \<open>AList.update\<close> overwrites in place or appends, as item
  assignment on a \<open>dict\<close> does, and \<open>AList.delete\<close> is \<open>pop\<close>.
\<close>

datatype val =
  VNone
  | VBool bool
  | VInt int
  | VStr string
  | VList "val list"
  | VDict "(string \<times> val) list"

type_synonym pydict = "(string \<times> val) list"

text \<open>Truth value testing (\<open>if x:\<close>).\<close>

fun truthy :: "val \<Rightarrow> bool" where
  "truthy VNone = False"
| "truthy (VBool b) = b"
| "truthy (VInt i) = (i \<noteq> 0)"
| "truthy (VStr s) = (s \<noteq> [])"
| "truthy (VList xs) = (xs \<noteq> [])"
| "truthy (VDict d) = (d \<noteq> [])"

text \<open>\<open>d.get(k)\<close>: the value under \<open>k\<close>, \<open>None\<close> when the key is absent.\<close>

definition dict_get :: "pydict \<Rightarrow> string \<Rightarrow> val" where
  "dict_get d k = (case map_of d k of None \<Rightarrow> VNone | Some v \<Rightarrow> v)"

subsection \<open>Exceptions\<close>

text \<open>
  Every \<open>raise\<close> of the module is a \<open>ValueError\<close> with a message; the other constructors
  are the exceptions Python itself raises on the paths modelled here.
\<close>

datatype error =
  ValueError string
  | TypeError
  | AttributeError
  | KeyError string
  | IndexError
  | EOFError
  | UnboundLocalError

text \<open>\<open>sep.join(xs)\<close>.\<close>

fun join :: "string \<Rightarrow> string list \<Rightarrow> string" where
  "join sep [] = []"
| "join sep [x] = x"
| "join sep (x # y # ys) = x @ sep @ join sep (y # ys)"

text \<open>The three errors of the engine, by the message each \<open>raise\<close> builds.\<close>

definition UnknownAttribute :: "string \<Rightarrow> error" where
  "UnknownAttribute name = ValueError (''Unknown resource attribute: '' @ name)"

definition MalformedPayload :: "string \<Rightarrow> error" where
  "MalformedPayload detail = ValueError (''Error parsing JSON: '' @ detail)"

definition MissingIdentifier :: "string list \<Rightarrow> error" where
  "MissingIdentifier names =
     ValueError (''Required attribute '' @ [CHR 0x27] @ join '' or '' names @ [CHR 0x27]
                 @ '' not specified.'')"

subsection \<open>The schema tables\<close>

text \<open>
  A schema maps a semantic field name to its external flag, in the order the table
  is written.
\<close>

type_synonym schema = "(string \<times> string) list"

fun ATTRIBUTE_MAPS :: "kind \<Rightarrow> schema" where
  "ATTRIBUTE_MAPS AccountList =
     [(''username'', ''--username''),
      (''email'', ''--email''),
      (''given_name'', ''--given-name''),
      (''middle_name'', ''--middle-name''),
      (''surname'', ''--surname''),
      (''password'', ''--password''),
      (''status'', ''--status''),
      (''href'', ''--href'')]"
| "ATTRIBUTE_MAPS ApplicationList =
     [(''name'', ''--name''),
      (''description'', ''--description''),
      (''href'', ''--href'')]"
| "ATTRIBUTE_MAPS AccountStoreMappingList =
     [(''href'', ''--href''),
      (''account_store'', ''--href''),
      (''application'', ''--in-application''),
      (''is_default_account_store'', ''--is-default-account-store''),
      (''is_default_group_store'', ''--is-default-group-store'')]"
| "ATTRIBUTE_MAPS DirectoryList =
     [(''name'', ''--name''),
      (''description'', ''--description''),
      (''href'', ''--href'')]"
| "ATTRIBUTE_MAPS GroupList =
     [(''name'', ''--name''),
      (''description'', ''--description''),
      (''href'', ''--href'')]"

fun REQUIRED_ATTRIBUTES :: "kind \<Rightarrow> schema" where
  "REQUIRED_ATTRIBUTES AccountList =
     [(''email'', ''--email''),
      (''given_name'', ''--given-name''),
      (''surname'', ''--surname''),
      (''password'', ''--password'')]"
| "REQUIRED_ATTRIBUTES ApplicationList = [(''name'', ''--name'')]"
| "REQUIRED_ATTRIBUTES DirectoryList = [(''name'', ''--name'')]"
| "REQUIRED_ATTRIBUTES GroupList = [(''name'', ''--name'')]"
| "REQUIRED_ATTRIBUTES AccountStoreMappingList =
     [(''application'', ''--in-application''),
      (''account_store'', ''--href'')]"

text \<open>\<open>EXTRA_MAPS\<close> has an entry for applications only.\<close>

fun EXTRA_MAPS :: "kind \<Rightarrow> schema option" where
  "EXTRA_MAPS ApplicationList = Some [(''create_directory'', ''--create-directory'')]"
| "EXTRA_MAPS _ = None"

text \<open>
  \<open>SEARCH_ATTRIBUTE_MAPS\<close> is built once, at import: a copy of each full schema,
  updated with \<open>status\<close> and \<open>q\<close>.
\<close>

definition SEARCH_ATTRIBUTE_MAPS :: "kind \<Rightarrow> schema" where
  "SEARCH_ATTRIBUTE_MAPS k =
     AList.update ''q'' ''--query'' (AList.update ''status'' ''--status'' (ATTRIBUTE_MAPS k))"

fun RESOURCE_PRIMARY_ATTRIBUTES :: "kind \<Rightarrow> string list" where
  "RESOURCE_PRIMARY_ATTRIBUTES AccountList = [''email'', ''href'']"
| "RESOURCE_PRIMARY_ATTRIBUTES ApplicationList = [''name'', ''href'']"
| "RESOURCE_PRIMARY_ATTRIBUTES DirectoryList = [''name'', ''href'']"
| "RESOURCE_PRIMARY_ATTRIBUTES GroupList = [''name'', ''href'']"
| "RESOURCE_PRIMARY_ATTRIBUTES AccountStoreMappingList = [''account_store'', ''href'']"

text \<open>
  The full-schema table is a module-level dictionary of dictionaries that the create
  path mutates, so the functions that read it take its current state; a fresh process
  starts from \<open>ATTRIBUTE_MAPS\<close>.
\<close>

type_synonym tables = "kind \<Rightarrow> schema"

subsection \<open>The primary-key resolver\<close>

text \<open>
  \<open>_primary_attribute(coll, attrs)\<close>. The attribute set may be any parsed JSON value;
  only a dictionary has \<open>get\<close>.
\<close>

definition primary_attribute :: "kind \<Rightarrow> val \<Rightarrow> error + (string \<times> val)" where
  "primary_attribute coll attrs =
     (case attrs of
        VDict d \<Rightarrow>
          (let attr_names = RESOURCE_PRIMARY_ATTRIBUTES coll;
               attr_values = map (dict_get d) (filter (\<lambda>n. truthy (dict_get d n)) attr_names)
           in if \<not> list_ex truthy attr_values
              then Inl (MissingIdentifier attr_names)
              else (case (attr_names, attr_values) of
                      (n # _, v # _) \<Rightarrow> Inr (n, v)
                    | _ \<Rightarrow> Inl IndexError))
      | _ \<Rightarrow> Inl AttributeError)"

subsection \<open>The account-store-mapping translation\<close>

text \<open>\<open>_check_account_store_mapping(coll, attrs)\<close>.\<close>

definition check_account_store_mapping :: "kind \<Rightarrow> val \<Rightarrow> error + val" where
  "check_account_store_mapping coll attrs =
     (if coll = AccountStoreMappingList
      then (case attrs of
              VDict d \<Rightarrow>
                (let d1 = AList.update ''application''
                            (VDict [(''href'', dict_get d ''application'')]) d;
                     d2 = AList.update ''account_store''
                            (VDict [(''href'', dict_get d1 ''account_store'')]) d1
                 in Inr (VDict d2))
            | _ \<Rightarrow> Inl AttributeError)
      else Inr attrs)"

subsection \<open>Building the attribute set\<close>

text \<open>
  \<open>_specialized_query(coll, args, maps)\<close>. The JSON parser is the standard library's;
  it is a parameter \<open>loads\<close> that returns the parsed value or the text of the
  \<open>ValueError\<close> it raises. \<open>maps\<close> is one of the schema tables, with \<open>None\<close> where the
  table has no entry for the kind (\<open>maps.get(ctype, {})\<close>).
\<close>

type_synonym parser = "string \<Rightarrow> string + val"

definition specialized_query ::
  "parser \<Rightarrow> kind \<Rightarrow> pydict \<Rightarrow> (kind \<Rightarrow> schema option) \<Rightarrow> error + val" where
  "specialized_query loads coll args maps =
     (let json_rep = dict_get args ''--json'' in
      if truthy json_rep
      then (case json_rep of
              VStr s \<Rightarrow>
                (case loads s of
                   Inl e \<Rightarrow> Inl (MalformedPayload e)
                 | Inr v \<Rightarrow> Inr v)
            | _ \<Rightarrow> Inl TypeError)
      else
        (let pmap = (case maps coll of None \<Rightarrow> [] | Some m \<Rightarrow> m)
         in Inr (VDict (foldl (\<lambda>params (name, opt).
                                  let optval = dict_get args opt
                                  in if truthy optval then AList.update name optval params
                                     else params)
                              [] pmap))))"

subsection \<open>String helpers\<close>

text \<open>
  The methods of \<open>str\<close> the module calls, on byte strings: \<open>replace\<close> of one character
  by another, \<open>upper\<close> and \<open>capitalize\<close> (which change the ASCII letters only),
  \<open>split\<close> on a separator character and \<open>strip\<close>.
\<close>

definition replace_char :: "char \<Rightarrow> char \<Rightarrow> string \<Rightarrow> string" where
  "replace_char a b s = map (\<lambda>c. if c = a then b else c) s"

definition ascii_lowercase :: string where
  "ascii_lowercase = ''abcdefghijklmnopqrstuvwxyz''"

definition ascii_uppercase :: string where
  "ascii_uppercase = ''ABCDEFGHIJKLMNOPQRSTUVWXYZ''"

definition upper_char :: "char \<Rightarrow> char" where
  "upper_char c =
     (case map_of (zip ascii_lowercase ascii_uppercase) c of None \<Rightarrow> c | Some u \<Rightarrow> u)"

definition lower_char :: "char \<Rightarrow> char" where
  "lower_char c =
     (case map_of (zip ascii_uppercase ascii_lowercase) c of None \<Rightarrow> c | Some l \<Rightarrow> l)"

definition upper :: "string \<Rightarrow> string" where
  "upper s = map upper_char s"

fun capitalize :: "string \<Rightarrow> string" where
  "capitalize [] = []"
| "capitalize (c # cs) = upper_char c # map lower_char cs"

text \<open>\<open>s.split(sep)\<close> for a one-character separator: the empty string gives \<open>['']\<close>.\<close>

fun split_on :: "char \<Rightarrow> string \<Rightarrow> string list" where
  "split_on sep [] = [[]]"
| "split_on sep (c # cs) =
     (if c = sep then [] # split_on sep cs
      else (case split_on sep cs of
              [] \<Rightarrow> [[c]]
            | w # ws \<Rightarrow> (c # w) # ws))"

definition is_space :: "char \<Rightarrow> bool" where
  "is_space c = (c \<in> set [CHR '' '', CHR 0x09, CHR 0x0A, CHR 0x0B, CHR 0x0C, CHR 0x0D])"

definition strip :: "string \<Rightarrow> string" where
  "strip s = rev (dropWhile is_space (rev (dropWhile is_space s)))"

subsection \<open>Inline attribute tokens\<close>

text \<open>
  \<open>_gather_resource_attributes(coll, args)\<close>. The argument parser puts a list of strings
  under \<open><attributes>\<close>; \<open>attrs\<close> is the kind's entry of the full-schema table as it
  stands when the function is called. The loop writes into \<open>args\<close> as it goes, and stops
  at the first token it rejects. A token is split at its first \<open>=\<close>. A value of any
  other shape, which the argument parser never produces, ends the model with
  \<open>TypeError\<close>.
\<close>

fun gather_loop :: "schema \<Rightarrow> val list \<Rightarrow> pydict \<Rightarrow> error + pydict" where
  "gather_loop attrs [] args = Inr args"
| "gather_loop attrs (VStr attr # rest) args =
     (if CHR ''='' \<notin> set attr then Inl (UnknownAttribute attr)
      else
        (let name = replace_char (CHR ''-'') (CHR ''_'') (takeWhile (\<lambda>c. c \<noteq> CHR ''='') attr);
             value = drop 1 (dropWhile (\<lambda>c. c \<noteq> CHR ''='') attr)
         in (case map_of attrs name of
               None \<Rightarrow> Inl (UnknownAttribute name)
             | Some flag \<Rightarrow> gather_loop attrs rest (AList.update flag (VStr value) args))))"
| "gather_loop attrs (_ # rest) args = Inl TypeError"

definition gather_resource_attributes :: "tables \<Rightarrow> kind \<Rightarrow> pydict \<Rightarrow> error + pydict" where
  "gather_resource_attributes tbl coll args =
     (let attrs = tbl coll
      in (case map_of args ''<attributes>'' of
            None \<Rightarrow> Inr args
          | Some (VList tokens) \<Rightarrow> gather_loop attrs tokens args
          | Some _ \<Rightarrow> Inl TypeError))"

subsection \<open>The process state\<close>

text \<open>
  What the actions read and change besides their arguments: the module-level
  full-schema table, the operator's pending lines of input, what the operator has been
  asked and shown so far, and the calls made to the remote collaborator so far.
\<close>

type_synonym resource = pydict

datatype console_event =
  Prompted "string option" val
  | Asked string
  | Printed val

datatype remote_op =
  Fetch kind string val
  | Query kind pydict
  | Iterate kind
  | Create kind val pydict
  | Save resource
  | Delete resource
  | AddGroup resource string

record state =
  attribute_maps :: tables
  stdin :: "string list"
  console :: "console_event list"
  remote :: "remote_op list"

text \<open>
  Modelled from the spec: \<open>prompt(arg, msg)\<close> of \<open>stormpath_cli/output.py\<close>, which is not
  among the sources. It solicits one value from the operator, showing the label \<open>msg\<close>
  (masking the input of a secret field), and returns the line entered; at the end of
  input the read raises \<open>EOFError\<close>.
\<close>

definition prompt :: "string option \<Rightarrow> val \<Rightarrow> state \<Rightarrow> state \<times> (error + string)" where
  "prompt arg msg s =
     (let s' = s\<lparr>console := console s @ [Prompted arg msg]\<rparr>
      in (case stdin s of
            [] \<Rightarrow> (s', Inl EOFError)
          | v # rest \<Rightarrow> (s'\<lparr>stdin := rest\<rparr>, Inr v)))"

text \<open>\<open>print(x)\<close>.\<close>

definition print :: "val \<Rightarrow> state \<Rightarrow> state" where
  "print x s = s\<lparr>console := console s @ [Printed x]\<rparr>"

text \<open>The builtin \<open>raw_input(msg)\<close> of Python 2, on the same input lines.\<close>

definition raw_input :: "string \<Rightarrow> state \<Rightarrow> state \<times> (error + string)" where
  "raw_input msg s =
     (let s' = s\<lparr>console := console s @ [Asked msg]\<rparr>
      in (case stdin s of
            [] \<Rightarrow> (s', Inl EOFError)
          | v # rest \<Rightarrow> (s'\<lparr>stdin := rest\<rparr>, Inr v)))"

text \<open>
  The module runs on Python 2 and on Python 3. \<open>delete_resource\<close> rebinds the name
  \<open>input\<close> in its own body:
  \<^verbatim>\<open>try: input = raw_input\<close>, \<^verbatim>\<open>except NameError: pass\<close>.
  The assignment makes \<open>input\<close> a local name of the function. On Python 2 the local
  is bound to \<open>raw_input\<close>. On Python 3 there is no \<open>raw_input\<close>: the \<open>NameError\<close> is
  swallowed, the local stays unbound, and the later call \<open>input(...)\<close> raises
  \<open>UnboundLocalError\<close>.
\<close>

datatype interpreter = Python2 | Python3

definition input :: "interpreter \<Rightarrow> string \<Rightarrow> state \<Rightarrow> state \<times> (error + string)" where
  "input py msg s =
     (case py of
        Python2 \<Rightarrow> raw_input msg s
      | Python3 \<Rightarrow> (s, Inl UnboundLocalError))"

subsection \<open>The interactive prompter\<close>

text \<open>
  \<open>_prompt_if_missing_parameters(coll, args)\<close>. The loop over \<open>sorted(remaining_coll_args)\<close>
  first; \<open>required_coll_args\<close> and \<open>all_coll_args\<close> are the two schemas the function
  looked up.
\<close>

fun prompt_loop ::
  "schema \<Rightarrow> schema \<Rightarrow> string list \<Rightarrow> pydict \<Rightarrow> state \<Rightarrow> state \<times> (error + pydict)" where
  "prompt_loop required_coll_args all_coll_args [] args s = (s, Inr args)"
| "prompt_loop required_coll_args all_coll_args (arg # rest) args s =
     (case (if arg = ''password''
            then (case map_of args ''--email'' of
                    None \<Rightarrow> Inl (KeyError ''--email'')
                  | Some e \<Rightarrow> Inr e)
            else Inr (VStr (capitalize (replace_char (CHR ''_'') (CHR '' '') arg)
                            @ (if arg \<in> set (map fst required_coll_args) then ''*'' else []))))
      of
        Inl e \<Rightarrow> (s, Inl e)
      | Inr msg \<Rightarrow>
          (case prompt (Some arg) msg s of
             (s', Inl e) \<Rightarrow> (s', Inl e)
           | (s', Inr v) \<Rightarrow>
               (case map_of all_coll_args arg of
                  None \<Rightarrow> (s', Inl (KeyError arg))
                | Some flag \<Rightarrow>
                    prompt_loop required_coll_args all_coll_args rest
                      (AList.update flag (VStr v) args) s')))"

text \<open>
  The required flags that are in \<open>args\<close> with a true value, in the order of the
  required schema.
\<close>

definition supplied_required_arguments :: "schema \<Rightarrow> pydict \<Rightarrow> string list" where
  "supplied_required_arguments required_coll_args args =
     filter (\<lambda>arg. case map_of args arg of None \<Rightarrow> False | Some v \<Rightarrow> truthy v)
            (map snd required_coll_args)"

text \<open>
  The function takes the kind's dictionary out of the module-level table and pops
  \<open>href\<close> from that very dictionary. Its early return compares the length of a list, an
  integer, with \<open>required_coll_args.values()\<close>, a list; the comparison is Python's
  \<open>==\<close> on two values.
\<close>

definition prompt_if_missing_parameters ::
  "kind \<Rightarrow> pydict \<Rightarrow> state \<Rightarrow> state \<times> (error + pydict)" where
  "prompt_if_missing_parameters coll args s =
     (let required_coll_args = REQUIRED_ATTRIBUTES coll;
          s1 = (if map_of (attribute_maps s coll) ''href'' \<noteq> None
                then s\<lparr>attribute_maps :=
                         (attribute_maps s)(coll := AList.delete ''href'' (attribute_maps s coll))\<rparr>
                else s);
          all_coll_args = attribute_maps s1 coll;
          supplied = supplied_required_arguments required_coll_args args
      in if VInt (int (length supplied)) = VList (map (\<lambda>(k, v). VStr v) required_coll_args)
         then (s1, Inr args)
         else
           (let remaining_coll_args =
                  filter (\<lambda>(k, v). v \<in> set (map snd all_coll_args) - set supplied) all_coll_args
            in if remaining_coll_args \<noteq> []
               then
                 (case prompt_loop required_coll_args all_coll_args
                         (sort (map fst remaining_coll_args)) args s1 of
                    (s2, Inl e) \<Rightarrow> (s2, Inl e)
                  | (s2, Inr args2) \<Rightarrow>
                      (if EXTRA_MAPS coll \<noteq> None
                       then
                         (case prompt None
                                 (VStr ''Create a directory for this application?[Y/n]'') s2 of
                            (s3, Inl e) \<Rightarrow> (s3, Inl e)
                          | (s3, Inr v) \<Rightarrow>
                              (s3, Inr (AList.update ''--create-directory''
                                          (VBool (v \<noteq> ''n'')) args2)))
                       else (s2, Inr args2)))
               else (s1, Inr args)))"

subsection \<open>The remote collaborator\<close>

text \<open>
  The SDK's collections and resources, and the two helpers \<open>get_resource\<close> and
  \<open>get_resource_data\<close> of \<open>stormpath_cli/resources.py\<close>, are outside the module: they
  are parameters. A fetched resource is its named fields; \<open>setattr\<close> writes one of
  them. Every call that reaches the collaborator is appended to \<open>remote\<close>.
\<close>

record collaborator =
  get_resource :: "kind \<Rightarrow> string \<Rightarrow> val \<Rightarrow> error + resource"
  get_resource_data :: "resource \<Rightarrow> val"
  coll_items :: "kind \<Rightarrow> resource list"
  coll_query :: "kind \<Rightarrow> pydict \<Rightarrow> error + resource list"
  coll_create :: "kind \<Rightarrow> val \<Rightarrow> pydict \<Rightarrow> error + resource"
  has_add_group :: "kind \<Rightarrow> bool"

definition call :: "remote_op \<Rightarrow> state \<Rightarrow> state" where
  "call op s = s\<lparr>remote := remote s @ [op]\<rparr>"

text \<open>
  \<open>_add_resource_to_groups(resource, args)\<close>; its return value is used by no caller.
\<close>

definition add_resource_to_groups ::
  "collaborator \<Rightarrow> kind \<Rightarrow> resource \<Rightarrow> pydict \<Rightarrow> state \<Rightarrow> state \<times> (error + unit)" where
  "add_resource_to_groups c coll resource args s =
     (let arg_groups = dict_get args ''--groups''
      in if truthy arg_groups \<and> has_add_group c coll
         then (case arg_groups of
                 VStr g \<Rightarrow>
                   (let groups = map strip (split_on (CHR '','') g)
                    in (foldl (\<lambda>s' group. call (AddGroup resource group) s') s groups, Inr ()))
               | _ \<Rightarrow> (s, Inl AttributeError))
         else (s, Inr ()))"

subsection \<open>The four actions\<close>

text \<open>
  Each action takes the collaborator \<open>c\<close>, the JSON parser \<open>loads\<close>, the kind of the
  collection, the flag map and the process state, and returns the new state with the
  exception raised or the value returned. \<open>current_maps s\<close> is the module-level
  \<open>ATTRIBUTE_MAPS\<close> as a table to look a kind up in.
\<close>

definition current_maps :: "state \<Rightarrow> kind \<Rightarrow> schema option" where
  "current_maps s k = Some (attribute_maps s k)"

definition search_maps :: "kind \<Rightarrow> schema option" where
  "search_maps k = Some (SEARCH_ATTRIBUTE_MAPS k)"

text \<open>
  \<open>list_resources(coll, args)\<close>: a generator; the model returns the records it yields
  when run to its end.
\<close>

definition list_resources ::
  "collaborator \<Rightarrow> parser \<Rightarrow> kind \<Rightarrow> pydict \<Rightarrow> state \<Rightarrow> state \<times> (error + val list)" where
  "list_resources c loads coll args s =
     (case gather_resource_attributes (attribute_maps s) coll args of
        Inl e \<Rightarrow> (s, Inl e)
      | Inr args1 \<Rightarrow>
          (case specialized_query loads coll args1 search_maps of
             Inl e \<Rightarrow> (s, Inl e)
           | Inr q \<Rightarrow>
               (if coll \<noteq> AccountStoreMappingList \<and> truthy q
                then (case q of
                        VDict d \<Rightarrow>
                          (case coll_query c coll d of
                             Inl e \<Rightarrow> (call (Query coll d) s, Inl e)
                           | Inr rs \<Rightarrow>
                               (call (Query coll d) s, Inr (map (get_resource_data c) rs)))
                      | _ \<Rightarrow> (s, Inl TypeError))
                else (call (Iterate coll) s,
                      Inr (map (get_resource_data c) (coll_items c coll))))))"

text \<open>\<open>create_resource(coll, args)\<close>.\<close>

definition create_resource ::
  "collaborator \<Rightarrow> parser \<Rightarrow> kind \<Rightarrow> pydict \<Rightarrow> state \<Rightarrow> state \<times> (error + val)" where
  "create_resource c loads coll args s =
     (case gather_resource_attributes (attribute_maps s) coll args of
        Inl e \<Rightarrow> (s, Inl e)
      | Inr args1 \<Rightarrow>
          (case prompt_if_missing_parameters coll args1 s of
             (s1, Inl e) \<Rightarrow> (s1, Inl e)
           | (s1, Inr args2) \<Rightarrow>
               (case specialized_query loads coll args2 (current_maps s1) of
                  Inl e \<Rightarrow> (s1, Inl e)
                | Inr attrs0 \<Rightarrow>
                    (case check_account_store_mapping coll attrs0 of
                       Inl e \<Rightarrow> (s1, Inl e)
                     | Inr attrs \<Rightarrow>
                         (case primary_attribute coll attrs of
                            Inl e \<Rightarrow> (s1, Inl e)
                          | Inr (attr_name, attr_value) \<Rightarrow>
                              (case specialized_query loads coll args2 EXTRA_MAPS of
                                 Inl e \<Rightarrow> (s1, Inl e)
                               | Inr (VDict extra) \<Rightarrow>
                                   (case coll_create c coll attrs extra of
                                      Inl e \<Rightarrow> (call (Create coll attrs extra) s1, Inl e)
                                    | Inr resource \<Rightarrow>
                                        (case add_resource_to_groups c coll resource args2
                                                (call (Create coll attrs extra) s1) of
                                           (s2, Inl e) \<Rightarrow> (s2, Inl e)
                                         | (s2, Inr _) \<Rightarrow>
                                             (s2, Inr (get_resource_data c resource))))
                               | Inr _ \<Rightarrow> (s1, Inl TypeError)))))))"

text \<open>
  \<open>update_resource(coll, args)\<close>. The loop over \<open>attrs.items()\<close> writes every attribute
  but the identifying one and \<open>href\<close> onto the fetched resource.
\<close>

definition set_attributes :: "string \<Rightarrow> pydict \<Rightarrow> resource \<Rightarrow> resource" where
  "set_attributes attr_name attrs resource =
     foldl (\<lambda>r (name, value).
              if name = attr_name \<or> name = ''href'' then r else AList.update name value r)
           resource attrs"

definition update_resource ::
  "collaborator \<Rightarrow> parser \<Rightarrow> kind \<Rightarrow> pydict \<Rightarrow> state \<Rightarrow> state \<times> (error + val)" where
  "update_resource c loads coll args s =
     (case gather_resource_attributes (attribute_maps s) coll args of
        Inl e \<Rightarrow> (s, Inl e)
      | Inr args1 \<Rightarrow>
          (case specialized_query loads coll args1 (current_maps s) of
             Inl e \<Rightarrow> (s, Inl e)
           | Inr attrs \<Rightarrow>
               (case primary_attribute coll attrs of
                  Inl e \<Rightarrow> (s, Inl e)
                | Inr (attr_name, attr_value) \<Rightarrow>
                    (case get_resource c coll attr_name attr_value of
                       Inl e \<Rightarrow> (call (Fetch coll attr_name attr_value) s, Inl e)
                     | Inr fetched \<Rightarrow>
                         (case attrs of
                            VDict d \<Rightarrow>
                              (let resource = set_attributes attr_name d fetched;
                                   s1 = call (Save resource)
                                          (call (Fetch coll attr_name attr_value) s)
                               in (case add_resource_to_groups c coll resource args1 s1 of
                                     (s2, Inl e) \<Rightarrow> (s2, Inl e)
                                   | (s2, Inr _) \<Rightarrow>
                                       (s2, Inr (get_resource_data c resource))))
                          | _ \<Rightarrow> (call (Fetch coll attr_name attr_value) s,
                                    Inl AttributeError))))))"

text \<open>
  \<open>delete_resource(coll, args)\<close>, run by the interpreter \<open>py\<close>. The result is \<open>None\<close> where
  the function returns nothing. What is printed before the question is the record
  that \<open>dumps\<close> renders.
\<close>

definition delete_resource ::
  "collaborator \<Rightarrow> parser \<Rightarrow> interpreter \<Rightarrow> kind \<Rightarrow> pydict \<Rightarrow> state
     \<Rightarrow> state \<times> (error + val option)" where
  "delete_resource c loads py coll args s =
     (case gather_resource_attributes (attribute_maps s) coll args of
        Inl e \<Rightarrow> (s, Inl e)
      | Inr args1 \<Rightarrow>
          (case specialized_query loads coll args1 (current_maps s) of
             Inl e \<Rightarrow> (s, Inl e)
           | Inr attrs \<Rightarrow>
               (case primary_attribute coll attrs of
                  Inl e \<Rightarrow> (s, Inl e)
                | Inr (attr_name, attr_value) \<Rightarrow>
                    (case get_resource c coll attr_name attr_value of
                       Inl e \<Rightarrow> (call (Fetch coll attr_name attr_value) s, Inl e)
                     | Inr resource \<Rightarrow>
                         (let data = get_resource_data c resource;
                              force = (case map_of args1 ''--force'' of
                                         None \<Rightarrow> VBool False
                                       | Some f \<Rightarrow> f);
                              s1 = call (Fetch coll attr_name attr_value) s
                          in if \<not> truthy force
                             then
                               (case input py ''Delete this resource [y/N]? ''
                                       (print data
                                          (print (VStr (''Are you sure you want to delete ''
                                                        @ ''the following resource?'')) s1)) of
                                  (s2, Inl e) \<Rightarrow> (s2, Inl e)
                                | (s2, Inr resp) \<Rightarrow>
                                    (if upper resp \<noteq> ''Y'' then (s2, Inr None)
                                     else (call (Delete resource) s2, Inr None)))
                             else (call (Delete resource) s1, Inr (Some data)))))))"

text \<open>A fresh process: the table as the module writes it, nothing asked, nothing called.\<close>

definition fresh :: "string list \<Rightarrow> state" where
  "fresh lines = \<lparr>attribute_maps = ATTRIBUTE_MAPS, stdin = lines, console = [], remote = []\<rparr>"

subsection \<open>A sample parser and collaborator\<close>

text \<open>
  To run the actions on concrete inputs: a parser that knows one payload,
  \<^verbatim>\<open>{"bogus":1}\<close>, and rejects every other string, and a collaborator with two stored
  resources in every collection, whose queries find the first one.
\<close>

definition sample_loads :: parser where
  "sample_loads s =
     (if s = ''{'' @ [CHR 0x22] @ ''bogus'' @ [CHR 0x22] @ '':1}''
      then Inr (VDict [(''bogus'', VInt 1)])
      else Inl ''No JSON object could be decoded'')"

definition sample_resource :: resource where
  "sample_resource =
     [(''href'', VStr ''https://x/1''), (''email'', VStr ''a@b.com''), (''given_name'', VStr ''Ann'')]"

definition other_resource :: resource where
  "other_resource =
     [(''href'', VStr ''https://x/2''), (''email'', VStr ''c@d.com''), (''given_name'', VStr ''Bob'')]"

definition sample_collaborator :: collaborator where
  "sample_collaborator =
     \<lparr>get_resource = (\<lambda>coll name value. Inr sample_resource),
      get_resource_data = VDict,
      coll_items = (\<lambda>coll. [sample_resource, other_resource]),
      coll_query = (\<lambda>coll q. Inr [sample_resource]),
      coll_create = (\<lambda>coll attrs extra. case attrs of VDict d \<Rightarrow> Inr d | _ \<Rightarrow> Inl TypeError),
      has_add_group = (\<lambda>coll. coll = AccountList)\<rparr>"

section \<open>Properties\<close>

subsection \<open>The primary-key resolver\<close>

text \<open>
  What \<open>_primary_attribute\<close> returns on a dictionary: the name is always the head of the
  kind's order, the value is that of the first field of the order that is present with
  a true value.
\<close>

lemma primary_attribute_dict:
  "primary_attribute coll (VDict d) =
     (case filter (\<lambda>n. truthy (dict_get d n)) (RESOURCE_PRIMARY_ATTRIBUTES coll) of
        [] \<Rightarrow> Inl (MissingIdentifier (RESOURCE_PRIMARY_ATTRIBUTES coll))
      | m # _ \<Rightarrow> Inr (hd (RESOURCE_PRIMARY_ATTRIBUTES coll), dict_get d m))"
  by (cases coll) (auto simp add: primary_attribute_def Let_def split: list.splits)

text \<open>
  C1. The specification states that the resolver returns the first field of the order
  that is present with a non-empty value, paired with that field's own value. On an
  account given by its \<open>href\<close> alone the first such field is \<open>href\<close>, but the
  function returns the name \<open>email\<close> paired with the value of \<open>href\<close>: the name
  comes from the unfiltered order, the value from the filtered one.
\<close>

theorem primary_attribute_href_only:
  "primary_attribute AccountList (VDict [(''href'', VStr ''https://x/1'')])
     = Inr (''email'', VStr ''https://x/1'')"
  by (simp add: primary_attribute_def dict_get_def)

subsection \<open>The interactive prompter\<close>

text \<open>
  The early return of \<open>_prompt_if_missing_parameters\<close> compares an integer with a list,
  which are never equal, so it is never taken.
\<close>

lemma early_return_never_taken:
  "VInt (int (length supplied)) \<noteq> VList (map (\<lambda>(k, v). VStr v) required_coll_args)"
  by simp

text \<open>
  C2. The specification states that, when every required field is already supplied
  with a non-empty value, the required-field check returns the arguments unchanged and
  asks the operator nothing. An application has one required field, \<open>name\<close>. With
  \<open>--name\<close> supplied the function still asks for the description and whether to
  create a directory, and returns the arguments with both answers added.
\<close>

theorem prompt_despite_required_supplied:
  "supplied_required_arguments (REQUIRED_ATTRIBUTES ApplicationList) [(''--name'', VStr ''app'')]
     = map snd (REQUIRED_ATTRIBUTES ApplicationList)
   \<and> console (fst (prompt_if_missing_parameters ApplicationList [(''--name'', VStr ''app'')]
                      (fresh [''d'', ''y''])))
     = [Prompted (Some ''description'') (VStr ''Description''),
        Prompted None (VStr ''Create a directory for this application?[Y/n]'')]
   \<and> snd (prompt_if_missing_parameters ApplicationList [(''--name'', VStr ''app'')]
             (fresh [''d'', ''y'']))
     = Inr [(''--name'', VStr ''app''), (''--description'', VStr ''d''),
            (''--create-directory'', VBool True)]"
  by (simp add: prompt_if_missing_parameters_def fresh_def supplied_required_arguments_def
        prompt_def Let_def less_char_def less_eq_char_def replace_char_def upper_char_def
        lower_char_def ascii_lowercase_def ascii_uppercase_def)

text \<open>
  C9. The specification states that, to the question whether to create a directory,
  any answer other than a case-insensitive \<open>n\<close> counts as yes, so that both \<open>n\<close> and
  \<open>N\<close> count as no. The function compares the answer with the lower-case letter
  only: the answer \<open>N\<close> is stored as \<open>True\<close>, as the empty answer is, and \<open>n\<close> alone
  is stored as \<open>False\<close>.
\<close>

theorem create_directory_upper_case_N:
  "snd (prompt_if_missing_parameters ApplicationList [(''--name'', VStr ''app'')]
          (fresh [''d'', ''N'']))
     = Inr [(''--name'', VStr ''app''), (''--description'', VStr ''d''),
            (''--create-directory'', VBool True)]
   \<and> snd (prompt_if_missing_parameters ApplicationList [(''--name'', VStr ''app'')]
             (fresh [''d'', ''n'']))
     = Inr [(''--name'', VStr ''app''), (''--description'', VStr ''d''),
            (''--create-directory'', VBool False)]
   \<and> snd (prompt_if_missing_parameters ApplicationList [(''--name'', VStr ''app'')]
             (fresh [''d'', '''']))
     = Inr [(''--name'', VStr ''app''), (''--description'', VStr ''d''),
            (''--create-directory'', VBool True)]"
  by (simp add: prompt_if_missing_parameters_def fresh_def supplied_required_arguments_def
        prompt_def Let_def less_char_def less_eq_char_def replace_char_def upper_char_def
        lower_char_def ascii_lowercase_def ascii_uppercase_def)

subsection \<open>The account-store-mapping translation\<close>

text \<open>
  C3, as stated. The specification states that the translation wraps \<open>application\<close>
  and \<open>account_store\<close> only if those keys are present, and that an attribute set
  lacking one of them does not gain it. The empty attribute set of an account-store
  mapping comes back with both keys, each holding \<open>{'href': None}\<close>.
\<close>

theorem check_account_store_mapping_adds_keys:
  "check_account_store_mapping AccountStoreMappingList (VDict [])
     = Inr (VDict [(''application'', VDict [(''href'', VNone)]),
                   (''account_store'', VDict [(''href'', VNone)])])"
  by (simp add: check_account_store_mapping_def dict_get_def)

text \<open>
  C3, amended. For an account-store mapping the translation always sets both
  \<open>application\<close> and \<open>account_store\<close> to a one-field object \<open>{href: v}\<close>, where \<open>v\<close> is
  the value the key had, or \<open>None\<close> when the key was absent; it leaves every other key
  as it was. The attribute set of every other kind is returned unchanged.
\<close>

theorem check_account_store_mapping_wraps:
  "(coll \<noteq> AccountStoreMappingList \<longrightarrow> check_account_store_mapping coll attrs = Inr attrs)
   \<and> (\<exists>d'. check_account_store_mapping AccountStoreMappingList (VDict d) = Inr (VDict d')
          \<and> map_of d' ''application'' = Some (VDict [(''href'', dict_get d ''application'')])
          \<and> map_of d' ''account_store'' = Some (VDict [(''href'', dict_get d ''account_store'')])
          \<and> (\<forall>k. k \<noteq> ''application'' \<and> k \<noteq> ''account_store'' \<longrightarrow> map_of d' k = map_of d k))"
  by (simp add: check_account_store_mapping_def Let_def dict_get_def update_conv')

theorem check_account_store_mapping_wraps_witness:
  "check_account_store_mapping GroupList (VDict [(''name'', VStr ''staff'')])
     = Inr (VDict [(''name'', VStr ''staff'')])
   \<and> check_account_store_mapping AccountStoreMappingList
         (VDict [(''account_store'', VStr ''https://x/d/1''), (''is_default_account_store'', VStr ''true'')])
     = Inr (VDict [(''account_store'', VDict [(''href'', VStr ''https://x/d/1'')]),
                   (''is_default_account_store'', VStr ''true''),
                   (''application'', VDict [(''href'', VNone)])])"
  using check_account_store_mapping_wraps
          [of GroupList "VDict [(''name'', VStr ''staff'')]"
              "[(''account_store'', VStr ''https://x/d/1''), (''is_default_account_store'', VStr ''true'')]"]
  by (simp add: check_account_store_mapping_def dict_get_def)

subsection \<open>JSON payloads\<close>

text \<open>
  An empty string under \<open>--json\<close> is no payload for \<open>_specialized_query\<close>: it
  resolves the flags as if the key were not there.
\<close>

lemma specialized_query_empty_json:
  assumes "map_of flags ''--json'' = Some (VStr [])"
  shows "specialized_query loads coll flags maps
           = specialized_query loads coll (AList.delete ''--json'' flags) maps"
proof -
  have get: "dict_get (AList.delete ''--json'' flags) opt
               = (if opt = ''--json'' then VNone else dict_get flags opt)" for opt
    by (simp add: dict_get_def delete_conv')
  have empty: "dict_get flags ''--json'' = VStr []"
    using assms by (simp add: dict_get_def)
  have step: "(\<lambda>params (name, opt).
                 let optval = dict_get (AList.delete ''--json'' flags) opt
                 in if truthy optval then AList.update name optval params else params)
            = (\<lambda>params (name, opt).
                 let optval = dict_get flags opt
                 in if truthy optval then AList.update name optval params else params)"
    by (auto simp add: fun_eq_iff get empty Let_def)
  have "dict_get (AList.delete ''--json'' flags) ''--json'' = VNone"
    by (simp add: get)
  with empty show ?thesis
    by (simp add: specialized_query_def step)
qed

text \<open>
  C5, as stated. The specification states that with a JSON payload flag present the
  resolution returns the parsed mapping and fails with the malformed-payload error
  exactly when the payload does not parse. The empty payload does not parse, yet with
  \<open>--json ''\<close> the attribute set is resolved from the other flags and nothing fails.
  And with a payload that parses, an inline token with an unknown name still makes the
  action fail, with the unknown-attribute error.
\<close>

theorem json_flag_present_counterexample:
  "sample_loads [] = Inl ''No JSON object could be decoded''
   \<and> specialized_query sample_loads ApplicationList
         [(''--json'', VStr []), (''--name'', VStr ''app'')] (current_maps (fresh []))
     = Inr (VDict [(''name'', VStr ''app'')])
   \<and> update_resource sample_collaborator sample_loads ApplicationList
         [(''--json'', VStr (''{'' @ [CHR 0x22] @ ''bogus'' @ [CHR 0x22] @ '':1}'')),
          (''<attributes>'', VList [VStr ''shoe-size=9''])]
         (fresh [])
     = (fresh [], Inl (UnknownAttribute ''shoe_size''))"
  by (simp add: sample_loads_def specialized_query_def current_maps_def fresh_def dict_get_def
        update_resource_def gather_resource_attributes_def replace_char_def Let_def)

text \<open>
  C5, amended. When the flag map holds a non-empty string under \<open>--json\<close>, the
  attribute-set builder returns what the payload parses to, as it is, whatever the kind
  and whatever the schema table says, and it fails with the malformed-payload error
  exactly when the parser rejects the payload; list, update and delete then fail with
  that error and leave the process state as it was. An empty string under \<open>--json\<close>
  counts as no payload. Every action gathers the inline tokens first, so an error found
  there is the action's error, payload or not.
\<close>

theorem json_payload_resolution:
  "(map_of flags ''--json'' = Some (VStr j) \<and> j \<noteq> [] \<longrightarrow>
      specialized_query loads coll flags maps
        = (case loads j of Inl detail \<Rightarrow> Inl (MalformedPayload detail) | Inr v \<Rightarrow> Inr v))
   \<and> (gather_resource_attributes (attribute_maps s) coll args = Inr args'
        \<and> map_of args' ''--json'' = Some (VStr j) \<and> j \<noteq> [] \<and> loads j = Inl detail \<longrightarrow>
          list_resources c loads coll args s = (s, Inl (MalformedPayload detail))
        \<and> update_resource c loads coll args s = (s, Inl (MalformedPayload detail))
        \<and> delete_resource c loads py coll args s = (s, Inl (MalformedPayload detail)))
   \<and> (map_of flags ''--json'' = Some (VStr []) \<longrightarrow>
        specialized_query loads coll flags maps
          = specialized_query loads coll (AList.delete ''--json'' flags) maps)
   \<and> (gather_resource_attributes (attribute_maps s) coll args = Inl e \<longrightarrow>
          list_resources c loads coll args s = (s, Inl e)
        \<and> create_resource c loads coll args s = (s, Inl e)
        \<and> update_resource c loads coll args s = (s, Inl e)
        \<and> delete_resource c loads py coll args s = (s, Inl e))"
proof -
  have parsed: "specialized_query loads coll flags maps
                  = (case loads j of Inl detail \<Rightarrow> Inl (MalformedPayload detail) | Inr v \<Rightarrow> Inr v)"
    if "map_of flags ''--json'' = Some (VStr j)" and "j \<noteq> []" for flags maps
    using that by (simp add: specialized_query_def dict_get_def)
  have malformed: "list_resources c loads coll args s = (s, Inl (MalformedPayload detail))
                 \<and> update_resource c loads coll args s = (s, Inl (MalformedPayload detail))
                 \<and> delete_resource c loads py coll args s = (s, Inl (MalformedPayload detail))"
    if "gather_resource_attributes (attribute_maps s) coll args = Inr args'"
      and "map_of args' ''--json'' = Some (VStr j)" and "j \<noteq> []" and "loads j = Inl detail"
    using that(1,4) parsed [OF that(2,3)]
    by (simp add: list_resources_def update_resource_def delete_resource_def)
  have tokens_first: "list_resources c loads coll args s = (s, Inl e)
                    \<and> create_resource c loads coll args s = (s, Inl e)
                    \<and> update_resource c loads coll args s = (s, Inl e)
                    \<and> delete_resource c loads py coll args s = (s, Inl e)"
    if "gather_resource_attributes (attribute_maps s) coll args = Inl e"
    using that
    by (simp add: list_resources_def create_resource_def update_resource_def
          delete_resource_def)
  from parsed malformed tokens_first specialized_query_empty_json show ?thesis
    by blast
qed

theorem json_payload_resolution_witness:
  "specialized_query sample_loads ApplicationList
       [(''--json'', VStr (''{'' @ [CHR 0x22] @ ''bogus'' @ [CHR 0x22] @ '':1}''))]
       (current_maps (fresh []))
     = Inr (VDict [(''bogus'', VInt 1)])
   \<and> delete_resource sample_collaborator sample_loads Python2 ApplicationList
       [(''--json'', VStr ''{bogus'')] (fresh [''y''])
     = (fresh [''y''], Inl (MalformedPayload ''No JSON object could be decoded''))"
proof -
  let ?payload = "''{'' @ [CHR 0x22] @ ''bogus'' @ [CHR 0x22] @ '':1}''"
  have flag: "map_of [(''--json'', VStr ?payload)] ''--json'' = Some (VStr ?payload)
              \<and> ?payload \<noteq> []"
    by simp
  have bad: "gather_resource_attributes (attribute_maps (fresh [''y''])) ApplicationList
                 [(''--json'', VStr ''{bogus'')] = Inr [(''--json'', VStr ''{bogus'')]
             \<and> map_of [(''--json'', VStr ''{bogus'')] ''--json'' = Some (VStr ''{bogus'')
             \<and> ''{bogus'' \<noteq> []
             \<and> sample_loads ''{bogus'' = Inl ''No JSON object could be decoded''"
    by (simp add: gather_resource_attributes_def sample_loads_def)
  have "specialized_query sample_loads ApplicationList [(''--json'', VStr ?payload)]
          (current_maps (fresh []))
          = (case sample_loads ?payload of
               Inl detail \<Rightarrow> Inl (MalformedPayload detail) | Inr v \<Rightarrow> Inr v)"
    using json_payload_resolution
            [where loads = sample_loads and j = ?payload
               and flags = "[(''--json'', VStr ?payload)]",
             THEN conjunct1, rule_format, OF flag] .
  moreover have "delete_resource sample_collaborator sample_loads Python2 ApplicationList
                   [(''--json'', VStr ''{bogus'')] (fresh [''y''])
                   = (fresh [''y''], Inl (MalformedPayload ''No JSON object could be decoded''))"
    using json_payload_resolution
            [where loads = sample_loads and j = "''{bogus''" and s = "fresh [''y'']"
               and coll = ApplicationList and args = "[(''--json'', VStr ''{bogus'')]"
               and args' = "[(''--json'', VStr ''{bogus'')]"
               and detail = "''No JSON object could be decoded''"
               and c = sample_collaborator and py = Python2,
             THEN conjunct2, THEN conjunct1, rule_format, OF bad]
    by blast
  ultimately show ?thesis
    by (simp add: sample_loads_def)
qed

subsection \<open>Inline attribute tokens\<close>

text \<open>A token \<open>N=v\<close> whose name has no \<open>=\<close> splits into \<open>N\<close> and \<open>v\<close>.\<close>

lemma split_token:
  assumes "CHR ''='' \<notin> set N"
  shows "takeWhile (\<lambda>c. c \<noteq> CHR ''='') (N @ ''='' @ v) = N"
    and "drop 1 (dropWhile (\<lambda>c. c \<noteq> CHR ''='') (N @ ''='' @ v)) = v"
proof -
  have all: "\<forall>c\<in>set N. c \<noteq> CHR ''=''"
    using assms by auto
  show "takeWhile (\<lambda>c. c \<noteq> CHR ''='') (N @ ''='' @ v) = N"
    using all by (induction N) auto
  show "drop 1 (dropWhile (\<lambda>c. c \<noteq> CHR ''='') (N @ ''='' @ v)) = v"
    using all by (induction N) auto
qed

lemma gather_loop_token:
  assumes "CHR ''='' \<notin> set N"
  shows "gather_loop attrs (VStr (N @ ''='' @ v) # post) args =
           (case map_of attrs (replace_char (CHR ''-'') (CHR ''_'') N) of
              None \<Rightarrow> Inl (UnknownAttribute (replace_char (CHR ''-'') (CHR ''_'') N))
            | Some flag \<Rightarrow> gather_loop attrs post (AList.update flag (VStr v) args))"
  using split_token [OF assms, of v] by (simp add: Let_def)

text \<open>
  A run of tokens that all hit the schema: \<open>hits\<close> lists, for each token, its name, its
  value and the flag the schema gives for the name. The loop gets through them with the
  values stored one after the other.
\<close>

lemma gather_loop_hits:
  assumes "\<forall>(N, v, flag) \<in> set hits.
             CHR ''='' \<notin> set N
             \<and> map_of attrs (replace_char (CHR ''-'') (CHR ''_'') N) = Some flag"
  shows "gather_loop attrs (map (\<lambda>(N, v, flag). VStr (N @ ''='' @ v)) hits @ rest) args
           = gather_loop attrs rest
               (foldl (\<lambda>a (N, v, flag). AList.update flag (VStr v) a) args hits)"
  using assms
proof (induction hits arbitrary: args)
  case Nil
  then show ?case by simp
next
  case (Cons h hits)
  obtain N v flag where h: "h = (N, v, flag)" by (cases h)
  from Cons.prems h have N: "CHR ''='' \<notin> set N"
    and flag: "map_of attrs (replace_char (CHR ''-'') (CHR ''_'') N) = Some flag"
    and rest: "\<forall>(N, v, flag) \<in> set hits.
                 CHR ''='' \<notin> set N
                 \<and> map_of attrs (replace_char (CHR ''-'') (CHR ''_'') N) = Some flag"
    by auto
  show ?case
    using gather_loop_token [OF N, of attrs v] flag Cons.IH [OF rest]
    by (simp add: h)
qed

text \<open>Storing values one after the other: the last value stored under a flag stays.\<close>

lemma map_of_stored:
  "map_of (foldl (\<lambda>a (N, v, flag). AList.update flag (VStr v) a) args hits)
     = map_of args ++ map_of (rev (map (\<lambda>(N, v, flag). (flag, VStr v)) hits))"
proof (induction hits arbitrary: args)
  case Nil
  then show ?case by simp
next
  case (Cons h hits)
  obtain N v flag where h: "h = (N, v, flag)" by (cases h)
  show ?case
    by (simp add: h Cons.IH update_conv' fun_eq_iff map_add_def split: option.splits)
qed

text \<open>
  C4. The inline tokens start with a run \<open>hits\<close> of tokens \<open>N=v\<close> whose names, hyphens
  turned into underscores, are fields of the kind's full schema. If the next token
  \<open>N=v\<close> has a name that is not a field, gathering fails with the unknown-attribute
  error naming it, and each of the four actions fails with it and leaves the process
  state as it was, so that no call has reached the collaborator. If the run is the
  whole list, gathering returns a flag map that holds, under the external flag of each
  token's field, the value of the last token for that flag, whatever the flag held
  before, and under every other key what the flag map held.
\<close>

theorem gather_inline_token:
  assumes "map_of args ''<attributes>''
             = Some (VList (map (\<lambda>(N, v, flag). VStr (N @ ''='' @ v)) hits @ rest))"
    and "\<forall>(N, v, flag) \<in> set hits.
           CHR ''='' \<notin> set N
           \<and> map_of (attribute_maps s coll) (replace_char (CHR ''-'') (CHR ''_'') N) = Some flag"
  shows "(\<forall>N v post name.
            rest = VStr (N @ ''='' @ v) # post \<and> CHR ''='' \<notin> set N
            \<and> name = replace_char (CHR ''-'') (CHR ''_'') N
            \<and> map_of (attribute_maps s coll) name = None \<longrightarrow>
              gather_resource_attributes (attribute_maps s) coll args
                = Inl (UnknownAttribute name)
            \<and> list_resources c loads coll args s = (s, Inl (UnknownAttribute name))
            \<and> create_resource c loads coll args s = (s, Inl (UnknownAttribute name))
            \<and> update_resource c loads coll args s = (s, Inl (UnknownAttribute name))
            \<and> delete_resource c loads py coll args s = (s, Inl (UnknownAttribute name)))
       \<and> (rest = [] \<longrightarrow>
            (\<exists>final.
               gather_resource_attributes (attribute_maps s) coll args = Inr final
             \<and> map_of final
                 = map_of args ++ map_of (rev (map (\<lambda>(N, v, flag). (flag, VStr v)) hits))
             \<and> (\<forall>before N v flag after.
                   hits = before @ (N, v, flag) # after
                   \<and> flag \<notin> (\<lambda>(N, v, flag). flag) ` set after \<longrightarrow>
                     map_of final flag = Some (VStr v))
             \<and> (\<forall>k. k \<notin> (\<lambda>(N, v, flag). flag) ` set hits \<longrightarrow>
                   map_of final k = map_of args k)))"
proof -
  let ?stored = "foldl (\<lambda>a (N, v, flag). AList.update flag (VStr v) a) args hits"
  let ?pairs = "\<lambda>hs. map (\<lambda>(N, v, flag). (flag, VStr v)) hs"
  have run: "gather_resource_attributes (attribute_maps s) coll args
               = gather_loop (attribute_maps s coll) rest ?stored"
    using assms(1) gather_loop_hits [OF assms(2), of rest args]
    by (simp add: gather_resource_attributes_def)
  have miss: "gather_resource_attributes (attribute_maps s) coll args
                = Inl (UnknownAttribute (replace_char (CHR ''-'') (CHR ''_'') N))"
    if "rest = VStr (N @ ''='' @ v) # post" and "CHR ''='' \<notin> set N"
      and "map_of (attribute_maps s coll) (replace_char (CHR ''-'') (CHR ''_'') N) = None"
    for N v post
    using run that(1,3) gather_loop_token [OF that(2), of "attribute_maps s coll" v post ?stored]
    by simp
  have actions: "list_resources c loads coll args s = (s, Inl e)
               \<and> create_resource c loads coll args s = (s, Inl e)
               \<and> update_resource c loads coll args s = (s, Inl e)
               \<and> delete_resource c loads py coll args s = (s, Inl e)"
    if "gather_resource_attributes (attribute_maps s) coll args = Inl e" for e
    using that
    by (simp add: list_resources_def create_resource_def update_resource_def
          delete_resource_def)
  have final: "map_of ?stored = map_of args ++ map_of (rev (?pairs hits))"
    by (rule map_of_stored)
  have last: "map_of ?stored flag = Some (VStr v)"
    if "hits = before @ (N, v, flag) # after"
      and "flag \<notin> (\<lambda>(N, v, flag). flag) ` set after"
    for before N v flag after
  proof -
    have "flag \<notin> fst ` set (rev (?pairs after))"
      using that(2) by (auto simp add: image_iff)
    then have "map_of (rev (?pairs after)) flag = None"
      by (simp add: map_of_eq_None_iff)
    then have "map_of (rev (?pairs hits)) flag = Some (VStr v)"
      by (simp add: that(1) map_add_def)
    then show ?thesis
      by (simp add: final)
  qed
  have untouched: "map_of ?stored k = map_of args k"
    if "k \<notin> (\<lambda>(N, v, flag). flag) ` set hits" for k
  proof -
    have "k \<notin> fst ` set (rev (?pairs hits))"
      using that by (auto simp add: image_iff)
    then have "map_of (rev (?pairs hits)) k = None"
      by (simp add: map_of_eq_None_iff)
    then show ?thesis
      by (simp add: final map_add_def)
  qed
  have hit: "\<exists>final.
               gather_resource_attributes (attribute_maps s) coll args = Inr final
             \<and> map_of final = map_of args ++ map_of (rev (?pairs hits))
             \<and> (\<forall>before N v flag after.
                   hits = before @ (N, v, flag) # after
                   \<and> flag \<notin> (\<lambda>(N, v, flag). flag) ` set after \<longrightarrow>
                     map_of final flag = Some (VStr v))
             \<and> (\<forall>k. k \<notin> (\<lambda>(N, v, flag). flag) ` set hits \<longrightarrow>
                   map_of final k = map_of args k)"
    if "rest = []"
  proof -
    from run that have "gather_resource_attributes (attribute_maps s) coll args = Inr ?stored"
      by simp
    with final last untouched show ?thesis
      by blast
  qed
  from miss actions hit show ?thesis
    by blast
qed

theorem gather_inline_token_witness:
  "update_resource sample_collaborator sample_loads AccountList
       [(''<attributes>'', VList [VStr ''given-name=Joe'', VStr ''shoe-size=9''])] (fresh [])
     = (fresh [], Inl (UnknownAttribute ''shoe_size''))
   \<and> (\<exists>final.
         gather_resource_attributes (attribute_maps (fresh [])) AccountList
           [(''--given-name'', VStr ''Jo''),
            (''<attributes>'', VList [VStr ''given-name=Joe'', VStr ''given_name=Josephine''])]
           = Inr final
       \<and> map_of final ''--given-name'' = Some (VStr ''Josephine'')
       \<and> map_of final ''<attributes>''
           = Some (VList [VStr ''given-name=Joe'', VStr ''given_name=Josephine'']))"
proof -
  have tokens: "map_of [(''<attributes>'', VList [VStr ''given-name=Joe'', VStr ''shoe-size=9''])]
                  ''<attributes>''
                  = Some (VList (map (\<lambda>(N, v, flag). VStr (N @ ''='' @ v))
                                   [(''given-name'', ''Joe'', ''--given-name'')]
                                 @ [VStr ''shoe-size=9'']))"
    by simp
  have hits: "\<forall>(N, v, flag) \<in> set [(''given-name'', ''Joe'', ''--given-name'')].
                CHR ''='' \<notin> set N
                \<and> map_of (attribute_maps (fresh []) AccountList)
                      (replace_char (CHR ''-'') (CHR ''_'') N) = Some flag"
    by (simp add: fresh_def replace_char_def)
  have next_token: "[VStr ''shoe-size=9''] = VStr (''shoe-size'' @ ''='' @ ''9'') # []
                  \<and> CHR ''='' \<notin> set ''shoe-size''
                  \<and> ''shoe_size'' = replace_char (CHR ''-'') (CHR ''_'') ''shoe-size''
                  \<and> map_of (attribute_maps (fresh []) AccountList) ''shoe_size'' = None"
    by (simp add: fresh_def replace_char_def)
  have miss: "update_resource sample_collaborator sample_loads AccountList
                  [(''<attributes>'', VList [VStr ''given-name=Joe'', VStr ''shoe-size=9''])]
                  (fresh [])
                = (fresh [], Inl (UnknownAttribute ''shoe_size''))"
    using gather_inline_token [OF tokens hits, THEN conjunct1, rule_format, OF next_token,
                               of sample_collaborator sample_loads Python3]
    by blast
  let ?args = "[(''--given-name'', VStr ''Jo''),
                (''<attributes>'', VList [VStr ''given-name=Joe'', VStr ''given_name=Josephine''])]"
  let ?hits = "[(''given-name'', ''Joe'', ''--given-name''),
                (''given_name'', ''Josephine'', ''--given-name'')]"
  have tokens': "map_of ?args ''<attributes>''
                   = Some (VList (map (\<lambda>(N, v, flag). VStr (N @ ''='' @ v)) ?hits @ []))"
    by simp
  have hits': "\<forall>(N, v, flag) \<in> set ?hits.
                 CHR ''='' \<notin> set N
                 \<and> map_of (attribute_maps (fresh []) AccountList)
                       (replace_char (CHR ''-'') (CHR ''_'') N) = Some flag"
    by (simp add: fresh_def replace_char_def)
  obtain final where
    final: "gather_resource_attributes (attribute_maps (fresh [])) AccountList ?args = Inr final"
    and stored: "map_of final
                   = map_of ?args ++ map_of (rev (map (\<lambda>(N, v, flag). (flag, VStr v)) ?hits))"
    using gather_inline_token [OF tokens' hits', THEN conjunct2, rule_format, OF refl]
    by blast
  have "map_of final ''--given-name'' = Some (VStr ''Josephine'')"
    and "map_of final ''<attributes>''
           = Some (VList [VStr ''given-name=Joe'', VStr ''given_name=Josephine''])"
    by (simp_all add: stored)
  with miss final show ?thesis
    by blast
qed

subsection \<open>Listing\<close>

text \<open>
  C8. Once the search attributes are resolved, listing account-store mappings iterates
  over the whole collection and never queries it, whatever was resolved; listing any
  other kind with a non-empty set of search attributes queries the collection with
  exactly that set and yields what the query finds.
\<close>

theorem list_resources_filtering:
  assumes "gather_resource_attributes (attribute_maps s) coll args = Inr args'"
    and "specialized_query loads coll args' search_maps = Inr q"
  shows "(coll = AccountStoreMappingList \<longrightarrow>
            list_resources c loads coll args s
              = (call (Iterate coll) s, Inr (map (get_resource_data c) (coll_items c coll))))
       \<and> (coll \<noteq> AccountStoreMappingList \<longrightarrow>
            (\<forall>d. q = VDict d \<and> d \<noteq> [] \<longrightarrow>
               list_resources c loads coll args s
                 = (call (Query coll d) s,
                    (case coll_query c coll d of
                       Inl e \<Rightarrow> Inl e
                     | Inr rs \<Rightarrow> Inr (map (get_resource_data c) rs)))))"
  using assms by (auto simp add: list_resources_def split: sum.splits)

theorem list_resources_filtering_witness:
  "list_resources sample_collaborator sample_loads AccountStoreMappingList
       [(''--query'', VStr ''foo'')] (fresh [])
     = (call (Iterate AccountStoreMappingList) (fresh []),
        Inr [VDict sample_resource, VDict other_resource])
   \<and> list_resources sample_collaborator sample_loads AccountList
       [(''--query'', VStr ''foo'')] (fresh [])
     = (call (Query AccountList [(''q'', VStr ''foo'')]) (fresh []),
        Inr [VDict sample_resource])"
  using list_resources_filtering
          [where s = "fresh []" and coll = AccountStoreMappingList
             and args = "[(''--query'', VStr ''foo'')]" and args' = "[(''--query'', VStr ''foo'')]"
             and loads = sample_loads and q = "VDict [(''q'', VStr ''foo'')]"
             and c = sample_collaborator]
        list_resources_filtering
          [where s = "fresh []" and coll = AccountList
             and args = "[(''--query'', VStr ''foo'')]" and args' = "[(''--query'', VStr ''foo'')]"
             and loads = sample_loads and q = "VDict [(''q'', VStr ''foo'')]"
             and c = sample_collaborator]
  by (simp add: gather_resource_attributes_def specialized_query_def search_maps_def
        SEARCH_ATTRIBUTE_MAPS_def dict_get_def sample_collaborator_def)

subsection \<open>Deleting\<close>

text \<open>Only the two letters \<open>y\<close> and \<open>Y\<close> are \<open>Y\<close> in upper case.\<close>

lemma upper_char_Y: "upper_char c = CHR ''Y'' \<longleftrightarrow> c = CHR ''y'' \<or> c = CHR ''Y''"
  by (auto simp add: upper_char_def ascii_lowercase_def ascii_uppercase_def split: if_splits)

lemma upper_Y: "upper resp = ''Y'' \<longleftrightarrow> resp = ''y'' \<or> resp = ''Y''"
proof (cases resp)
  case Nil
  then show ?thesis by (simp add: upper_def)
next
  case (Cons c cs)
  then show ?thesis
    using upper_char_Y [of c] by (cases cs) (auto simp add: upper_def)
qed

text \<open>
  A delete whose attributes resolve and whose resource is fetched. With a true force
  flag, on either interpreter, nothing is asked, the resource is deleted, and the
  action returns the record normalised before the deletion. Without it, on Python 2,
  the operator is shown the record and asked once; the resource is deleted exactly
  when the answer is \<open>y\<close> or \<open>Y\<close>, and the action returns nothing either way.
\<close>

lemma delete_resource_resolved:
  assumes "gather_resource_attributes (attribute_maps s) coll args = Inr args'"
    and "specialized_query loads coll args' (current_maps s) = Inr attrs"
    and "primary_attribute coll attrs = Inr (attr_name, attr_value)"
    and "get_resource c coll attr_name attr_value = Inr resource"
    and "fetched = call (Fetch coll attr_name attr_value) s"
    and "shown = console s
                   @ [Printed (VStr ''Are you sure you want to delete the following resource?''),
                      Printed (get_resource_data c resource)]"
  shows "(\<not> truthy (dict_get args' ''--force'') \<longrightarrow>
            (\<forall>resp rest. stdin s = resp # rest \<longrightarrow>
               delete_resource c loads Python2 coll args s =
                 (if resp = ''y'' \<or> resp = ''Y''
                  then (call (Delete resource)
                          (fetched\<lparr>console := shown @ [Asked ''Delete this resource [y/N]? ''],
                                   stdin := rest\<rparr>),
                        Inr None)
                  else (fetched\<lparr>console := shown @ [Asked ''Delete this resource [y/N]? ''],
                                 stdin := rest\<rparr>,
                        Inr None))))
       \<and> (\<not> truthy (dict_get args' ''--force'') \<longrightarrow>
            delete_resource c loads Python3 coll args s
              = (fetched\<lparr>console := shown\<rparr>, Inl UnboundLocalError))
       \<and> (truthy (dict_get args' ''--force'') \<longrightarrow>
            delete_resource c loads py coll args s
              = (call (Delete resource) fetched, Inr (Some (get_resource_data c resource))))"
  using assms upper_Y
  by (auto simp add: delete_resource_def Let_def input_def raw_input_def print_def call_def
        dict_get_def split: option.splits)

text \<open>
  C7. The specification states that a delete without the force flag deletes the fetched
  resource exactly when the operator answers \<open>y\<close> or \<open>Y\<close>. On Python 3 the function
  never gets to ask: its local name \<open>input\<close> is unbound, so an unforced delete of an
  account-store mapping, with the operator ready to answer \<open>y\<close>, raises
  \<open>UnboundLocalError\<close> after the fetch; the answer is not read and nothing is deleted.
\<close>

theorem delete_resource_unforced_python3:
  "delete_resource sample_collaborator sample_loads Python3 AccountStoreMappingList
       [(''--href'', VStr ''https://x/1'')] (fresh [''y''])
     = (\<lparr>attribute_maps = ATTRIBUTE_MAPS, stdin = [''y''],
         console = [Printed (VStr ''Are you sure you want to delete the following resource?''),
                    Printed (VDict sample_resource)],
         remote = [Fetch AccountStoreMappingList ''account_store'' (VStr ''https://x/1'')]\<rparr>,
        Inl UnboundLocalError)"
  by (simp add: delete_resource_def gather_resource_attributes_def specialized_query_def
        current_maps_def primary_attribute_def dict_get_def fresh_def call_def print_def
        input_def sample_collaborator_def Let_def)

subsection \<open>Updating\<close>

text \<open>The loop of \<open>update_resource\<close>, one attribute at a time.\<close>

lemma set_attributes_Nil: "set_attributes attr_name [] r = r"
  by (simp add: set_attributes_def)

lemma set_attributes_Cons:
  "set_attributes attr_name ((name, value) # attrs) r =
     set_attributes attr_name attrs
       (if name = attr_name \<or> name = ''href'' then r else AList.update name value r)"
  by (simp add: set_attributes_def)

text \<open>
  A field keeps its value if it is the identifying field, or \<open>href\<close>, or not among the
  attributes.
\<close>

lemma set_attributes_kept:
  "k = attr_name \<or> k = ''href'' \<or> k \<notin> fst ` set attrs \<Longrightarrow>
   map_of (set_attributes attr_name attrs r) k = map_of r k"
proof (induction attrs arbitrary: r)
  case Nil
  then show ?case by (simp add: set_attributes_Nil)
next
  case (Cons p attrs)
  obtain name v where p: "p = (name, v)" by (cases p)
  from Cons.prems have rest: "k = attr_name \<or> k = ''href'' \<or> k \<notin> fst ` set attrs"
    by auto
  from Cons.prems p have "name = attr_name \<or> name = ''href'' \<or> k \<noteq> name"
    by auto
  then show ?case
    using Cons.IH [OF rest] by (auto simp add: p set_attributes_Cons update_conv')
qed

text \<open>Every other attribute is written, a dictionary holding one value for a name.\<close>

lemma set_attributes_written:
  "distinct (map fst attrs) \<Longrightarrow> (name, value) \<in> set attrs \<Longrightarrow>
   name \<noteq> attr_name \<Longrightarrow> name \<noteq> ''href'' \<Longrightarrow>
   map_of (set_attributes attr_name attrs r) name = Some value"
proof (induction attrs arbitrary: r)
  case Nil
  then show ?case by simp
next
  case (Cons p attrs)
  obtain n v where p: "p = (n, v)" by (cases p)
  show ?case
  proof (cases "(name, value) = p")
    case True
    with Cons.prems(1) p have "name \<notin> fst ` set attrs" and "n = name" and "v = value"
      by auto
    then show ?thesis
      using Cons.prems(3,4) set_attributes_kept [of name attr_name attrs]
      by (simp add: p set_attributes_Cons update_conv')
  next
    case False
    with Cons.prems(2) have "(name, value) \<in> set attrs" by auto
    moreover from Cons.prems(1) have "distinct (map fst attrs)" by simp
    ultimately show ?thesis
      using Cons.IH Cons.prems(3,4) by (simp add: p set_attributes_Cons)
  qed
qed

text \<open>Attaching groups only adds calls, one for each group.\<close>

lemma add_groups_calls:
  "foldl (\<lambda>s' group. call (AddGroup r group) s') s groups
     = s\<lparr>remote := remote s @ map (AddGroup r) groups\<rparr>"
  by (induction groups arbitrary: s) (simp_all add: call_def)

lemma add_resource_to_groups_remote:
  "\<exists>groups. remote (fst (add_resource_to_groups c coll r args s))
              = remote s @ map (AddGroup r) groups"
proof (cases "truthy (dict_get args ''--groups'') \<and> has_add_group c coll")
  case False
  then have "fst (add_resource_to_groups c coll r args s) = s"
    by (auto simp add: add_resource_to_groups_def)
  then have "remote (fst (add_resource_to_groups c coll r args s)) = remote s @ map (AddGroup r) []"
    by simp
  then show ?thesis by blast
next
  case True
  show ?thesis
  proof (cases "dict_get args ''--groups''")
    case (VStr g)
    with True have "remote (fst (add_resource_to_groups c coll r args s))
                      = remote s @ map (AddGroup r) (map strip (split_on (CHR '','') g))"
      by (simp add: add_resource_to_groups_def add_groups_calls)
    then show ?thesis by blast
  qed (use True in \<open>auto simp add: add_resource_to_groups_def intro: exI [of _ "[]"]\<close>)
qed

text \<open>
  C6. Take an update whose attributes resolve to a dictionary and whose resource is
  fetched. The calls it makes are the fetch, then one save, then group attachments.
  The resource saved has the \<open>href\<close> and the identifying field of the fetched one,
  also when \<open>href\<close> is among the resolved attributes; every other resolved attribute is
  on it with its resolved value; and the fields that are not among the resolved
  attributes are those of the fetched resource.
\<close>

theorem update_resource_frame:
  assumes "gather_resource_attributes (attribute_maps s) coll args = Inr args'"
    and "specialized_query loads coll args' (current_maps s) = Inr (VDict d)"
    and "distinct (map fst d)"
    and "primary_attribute coll (VDict d) = Inr (attr_name, attr_value)"
    and "get_resource c coll attr_name attr_value = Inr fetched"
  shows "\<exists>resource groups.
           remote (fst (update_resource c loads coll args s))
             = remote s @ [Fetch coll attr_name attr_value, Save resource]
                 @ map (AddGroup resource) groups
         \<and> map_of resource ''href'' = map_of fetched ''href''
         \<and> map_of resource attr_name = map_of fetched attr_name
         \<and> (\<forall>(name, value) \<in> set d.
               name \<noteq> attr_name \<and> name \<noteq> ''href'' \<longrightarrow> map_of resource name = Some value)
         \<and> (\<forall>k. k \<notin> fst ` set d \<longrightarrow> map_of resource k = map_of fetched k)"
proof -
  let ?resource = "set_attributes attr_name d fetched"
  let ?saved = "call (Save ?resource) (call (Fetch coll attr_name attr_value) s)"
  have run: "fst (update_resource c loads coll args s)
               = fst (add_resource_to_groups c coll ?resource args' ?saved)"
    using assms(1,2,4,5)
    by (simp add: update_resource_def Let_def split: prod.splits sum.splits)
  obtain groups where
    "remote (fst (add_resource_to_groups c coll ?resource args' ?saved))
       = remote ?saved @ map (AddGroup ?resource) groups"
    using add_resource_to_groups_remote by blast
  then have calls: "remote (fst (update_resource c loads coll args s))
                      = remote s @ [Fetch coll attr_name attr_value, Save ?resource]
                          @ map (AddGroup ?resource) groups"
    by (simp add: run call_def)
  have href: "map_of ?resource ''href'' = map_of fetched ''href''"
    by (simp add: set_attributes_kept)
  have ident: "map_of ?resource attr_name = map_of fetched attr_name"
    by (simp add: set_attributes_kept)
  have written: "\<forall>(name, value) \<in> set d.
                   name \<noteq> attr_name \<and> name \<noteq> ''href'' \<longrightarrow> map_of ?resource name = Some value"
    using set_attributes_written [OF assms(3)] by auto
  have others: "\<forall>k. k \<notin> fst ` set d \<longrightarrow> map_of ?resource k = map_of fetched k"
    by (simp add: set_attributes_kept)
  from calls href ident written others show ?thesis
    by blast
qed

theorem update_resource_frame_witness:
  "update_resource sample_collaborator sample_loads AccountList
       [(''--email'', VStr ''a@b.com''),
        (''<attributes>'', VList [VStr ''href=https://x/9'', VStr ''given-name=Zed''])]
       (fresh [])
     = (\<lparr>attribute_maps = ATTRIBUTE_MAPS, stdin = [], console = [],
         remote = [Fetch AccountList ''email'' (VStr ''a@b.com''),
                   Save [(''href'', VStr ''https://x/1''), (''email'', VStr ''a@b.com''),
                         (''given_name'', VStr ''Zed'')]]\<rparr>,
        Inr (VDict [(''href'', VStr ''https://x/1''), (''email'', VStr ''a@b.com''),
                    (''given_name'', VStr ''Zed'')]))"
  using update_resource_frame
          [where s = "fresh []" and coll = AccountList and loads = sample_loads
             and c = sample_collaborator
             and args = "[(''--email'', VStr ''a@b.com''),
                          (''<attributes>'',
                           VList [VStr ''href=https://x/9'', VStr ''given-name=Zed''])]"
             and args' = "[(''--email'', VStr ''a@b.com''),
                           (''<attributes>'',
                            VList [VStr ''href=https://x/9'', VStr ''given-name=Zed'']),
                           (''--href'', VStr ''https://x/9''),
                           (''--given-name'', VStr ''Zed'')]"
             and d = "[(''email'', VStr ''a@b.com''), (''given_name'', VStr ''Zed''),
                       (''href'', VStr ''https://x/9'')]"
             and attr_name = "''email''" and attr_value = "VStr ''a@b.com''"
             and fetched = sample_resource]
  by (simp add: update_resource_def gather_resource_attributes_def specialized_query_def
        current_maps_def primary_attribute_def add_resource_to_groups_def set_attributes_def
        dict_get_def fresh_def call_def sample_collaborator_def sample_resource_def
        replace_char_def Let_def)

subsection \<open>The shared full-schema table\<close>






text \<open>The flag path of the resolver only produces names of the schema it is given.\<close>

lemma resolved_names:
  "fst ` set (foldl (\<lambda>params (name, opt).
                       let optval = dict_get args opt
                       in if truthy optval then AList.update name optval params else params)
                    params pmap)
     \<subseteq> fst ` set params \<union> fst ` set pmap"
proof (induction pmap arbitrary: params)
  case Nil
  then show ?case by simp
next
  case (Cons p pmap)
  obtain name opt where p: "p = (name, opt)" by (cases p)
  show ?case
  proof (cases "truthy (dict_get args opt)")
    case True
    then show ?thesis
      using Cons.IH [of "AList.update name (dict_get args opt) params"]
      by (auto simp add: p Let_def dom_update)
  next
    case False
    then show ?thesis
      using Cons.IH [of params] by (auto simp add: p Let_def)
  qed
qed

lemma specialized_query_names:
  assumes "\<not> truthy (dict_get args ''--json'')" and "maps coll = Some pmap"
  shows "\<exists>d. specialized_query loads coll args maps = Inr (VDict d)
            \<and> fst ` set d \<subseteq> fst ` set pmap"
  using assms resolved_names [of args "[]" pmap]
  by (simp add: specialized_query_def)








end
